theory Spec2Isabelle
  imports Complex_Main "HOL-Library.Sublist"
begin

section \<open>JavaScript values used by the views\<close>

text \<open>
  A JavaScript \<open>number\<close> is a double. The model keeps the four kinds of value that decide
  control flow and totality: a finite value, the two infinities and NaN. Finite values are
  real numbers: rounding, overflow of a finite result to an infinity and the sign of zero
  are not modelled (the numbers of this program are database decimals and integers read
  from JSON, and form inputs).
\<close>

datatype jsnum = Fin real | PInf | NInf | NaN

text \<open>The operator \<open>/\<close> on numbers. It never throws: a zero divisor gives an infinity or NaN.\<close>

fun js_div :: "jsnum \<Rightarrow> jsnum \<Rightarrow> jsnum" where
  "js_div (Fin a) (Fin b) =
     (if b \<noteq> 0 then Fin (a / b)
      else if a = 0 then NaN
      else if 0 < a then PInf else NInf)"
| "js_div (Fin a) PInf = Fin 0"
| "js_div (Fin a) NInf = Fin 0"
| "js_div PInf (Fin b) = (if 0 \<le> b then PInf else NInf)"
| "js_div NInf (Fin b) = (if 0 \<le> b then NInf else PInf)"
| "js_div PInf PInf = NaN"
| "js_div PInf NInf = NaN"
| "js_div NInf PInf = NaN"
| "js_div NInf NInf = NaN"
| "js_div NaN y = NaN"
| "js_div x NaN = NaN"

text \<open>The operator \<open>*\<close> on numbers.\<close>

fun js_mul :: "jsnum \<Rightarrow> jsnum \<Rightarrow> jsnum" where
  "js_mul (Fin a) (Fin b) = Fin (a * b)"
| "js_mul (Fin a) PInf = (if a = 0 then NaN else if 0 < a then PInf else NInf)"
| "js_mul (Fin a) NInf = (if a = 0 then NaN else if 0 < a then NInf else PInf)"
| "js_mul PInf (Fin b) = (if b = 0 then NaN else if 0 < b then PInf else NInf)"
| "js_mul NInf (Fin b) = (if b = 0 then NaN else if 0 < b then NInf else PInf)"
| "js_mul PInf PInf = PInf"
| "js_mul PInf NInf = NInf"
| "js_mul NInf PInf = NInf"
| "js_mul NInf NInf = PInf"
| "js_mul NaN y = NaN"
| "js_mul x NaN = NaN"

text \<open>\<open>Math.min\<close> of two numbers: NaN when either is NaN, the smaller one otherwise.\<close>

fun Math_min :: "jsnum \<Rightarrow> jsnum \<Rightarrow> jsnum" where
  "Math_min (Fin a) (Fin b) = Fin (min a b)"
| "Math_min (Fin a) PInf = Fin a"
| "Math_min (Fin a) NInf = NInf"
| "Math_min PInf (Fin b) = Fin b"
| "Math_min NInf (Fin b) = NInf"
| "Math_min PInf PInf = PInf"
| "Math_min PInf NInf = NInf"
| "Math_min NInf PInf = NInf"
| "Math_min NInf NInf = NInf"
| "Math_min NaN y = NaN"
| "Math_min x NaN = NaN"

text \<open>Truthiness of a number, as \<open>||\<close> reads it: zero and NaN are falsy.\<close>

fun truthy :: "jsnum \<Rightarrow> bool" where
  "truthy (Fin a) = (a \<noteq> 0)"
| "truthy PInf = True"
| "truthy NInf = True"
| "truthy NaN = False"

section \<open>Goals: the progress percentage\<close>

text \<open>
  The \<open>Goal\<close> interface of Goals.tsx. The fields \<open>id\<close> and \<open>type\<close> are written
  \<open>goal_id\<close> and \<open>goal_type\<close>.
\<close>

record Goal =
  goal_id :: string
  goal_type :: string
  target_value :: jsnum
  current_value :: jsnum
  target_date :: "string option"
  achieved :: bool
  created_at :: string

text \<open>
  \<open>getProgress\<close>:
  \<^verbatim>\<open>return Math.min((goal.current_value / goal.target_value) * 100, 100);\<close>
\<close>

definition getProgress :: "Goal \<Rightarrow> jsnum" where
  "getProgress goal =
     Math_min (js_mul (js_div (current_value goal) (target_value goal)) (Fin 100)) (Fin 100)"

text \<open>
  The specification's reading of the progress percentage, \<open>clamp(x, 0, 100)\<close>, written
  from its words for comparison with \<open>getProgress\<close>.
\<close>

definition spec_clamp :: "real \<Rightarrow> real \<Rightarrow> real \<Rightarrow> real" where
  "spec_clamp x lo hi = max lo (min hi x)"

definition a_goal :: "real \<Rightarrow> real \<Rightarrow> Goal" where
  "a_goal c t =
     \<lparr>goal_id = ''g1'', goal_type = ''weight_loss'', target_value = Fin t,
      current_value = Fin c, target_date = None, achieved = False,
      created_at = ''2025-09-15T16:42:48Z''\<rparr>"

section \<open>WorkoutForm: the exercise entries and their sets\<close>

text \<open>
  An array slot holds a number or is \<open>undefined\<close> (\<open>None\<close>): a hole left by a write past
  the end, or what a read outside the array returns.
\<close>

type_synonym slot = "jsnum option"

datatype js_error = TypeError

text \<open>Reading \<open>xs[i]\<close>: \<open>undefined\<close> outside the array (also at index \<open>-1\<close>).\<close>

definition js_get :: "slot list \<Rightarrow> int \<Rightarrow> slot" where
  "js_get xs i = (if 0 \<le> i \<and> i < int (length xs) then xs ! nat i else None)"

text \<open>
  Writing \<open>xs[i] = v\<close> on a copy of the array: inside the array the slot is replaced;
  past the end the array grows to length \<open>i + 1\<close> and the slots between are holes.
\<close>

definition js_set :: "slot list \<Rightarrow> nat \<Rightarrow> jsnum \<Rightarrow> slot list" where
  "js_set xs i v =
     (if i < length xs then xs[i := Some v]
      else xs @ replicate (i - length xs) None @ [Some v])"

text \<open>The expression \<open>x || d\<close> for a slot \<open>x\<close> and a number \<open>d\<close>.\<close>

definition or_default :: "slot \<Rightarrow> jsnum \<Rightarrow> jsnum" where
  "or_default x d = (case x of None \<Rightarrow> d | Some v \<Rightarrow> if truthy v then v else d)"

text \<open>
  The interfaces \<open>Exercise\<close> and \<open>WorkoutExercise\<close> and the state of the \<open>WorkoutForm\<close>
  component (its \<open>useState\<close> cells). Fields whose names occur in two interfaces carry a
  prefix: \<open>ex_id\<close>, \<open>ex_name\<close>, \<open>we_id\<close>, \<open>we_notes\<close>, \<open>form_notes\<close>.
\<close>

record Exercise =
  ex_id :: string
  ex_name :: string
  category :: string
  muscle_groups :: "string list"

record WorkoutExercise =
  we_id :: "string option"
  exercise_id :: string
  exercise_name :: string
  sets :: int
  reps :: "slot list"
  weight :: "slot list"
  rest_seconds :: jsnum
  we_notes :: string

record WorkoutForm =
  name :: string
  date :: string
  durationMinutes :: jsnum
  form_notes :: string
  exercises :: "Exercise list"
  workoutExercises :: "WorkoutExercise list"
  showExerciseSelector :: bool
  searchTerm :: string
  loading :: bool

text \<open>
  \<open>addExercise\<close>: a fresh entry with three sets is appended to a copy of the list; the
  picker is closed and the search term cleared.
\<close>

definition addExercise :: "Exercise \<Rightarrow> WorkoutForm \<Rightarrow> WorkoutForm" where
  "addExercise exercise st =
     (let newWorkoutExercise =
        \<lparr>we_id = None, exercise_id = ex_id exercise, exercise_name = ex_name exercise,
         sets = 3, reps = [Some (Fin 10), Some (Fin 10), Some (Fin 10)],
         weight = [Some (Fin 0), Some (Fin 0), Some (Fin 0)],
         rest_seconds = Fin 60, we_notes = []\<rparr>
      in st\<lparr>workoutExercises := workoutExercises st @ [newWorkoutExercise],
            showExerciseSelector := False, searchTerm := []\<rparr>)"

datatype field = Reps | Weight

text \<open>
  The three handlers below copy the list (\<open>[...workoutExercises]\<close>), take the entry at
  \<open>exerciseIndex\<close> and change that object. Outside the list the entry is \<open>undefined\<close> and
  reading a property of it throws a TypeError. No two entries of the list are the same
  object (each is built by its own object literal), so the new state is the old list with
  the one entry replaced.
\<close>

definition updateSetData ::
  "nat \<Rightarrow> nat \<Rightarrow> field \<Rightarrow> jsnum \<Rightarrow> WorkoutForm \<Rightarrow> js_error + WorkoutForm" where
  "updateSetData exerciseIndex setIndex fld val st =
     (if exerciseIndex < length (workoutExercises st) then
        let exercise = workoutExercises st ! exerciseIndex;
            exercise' =
              (case fld of
                 Reps \<Rightarrow> exercise\<lparr>reps := js_set (reps exercise) setIndex val\<rparr>
               | Weight \<Rightarrow> exercise\<lparr>weight := js_set (weight exercise) setIndex val\<rparr>)
        in Inr (st\<lparr>workoutExercises := (workoutExercises st)[exerciseIndex := exercise']\<rparr>)
      else Inl TypeError)"

definition addSet :: "nat \<Rightarrow> WorkoutForm \<Rightarrow> js_error + WorkoutForm" where
  "addSet exerciseIndex st =
     (if exerciseIndex < length (workoutExercises st) then
        let exercise = workoutExercises st ! exerciseIndex;
            exercise' = exercise
              \<lparr>sets := sets exercise + 1,
               reps := reps exercise @
                 [Some (or_default (js_get (reps exercise) (int (length (reps exercise)) - 1))
                    (Fin 10))],
               weight := weight exercise @
                 [Some (or_default (js_get (weight exercise) (int (length (weight exercise)) - 1))
                    (Fin 0))]\<rparr>
        in Inr (st\<lparr>workoutExercises := (workoutExercises st)[exerciseIndex := exercise']\<rparr>)
      else Inl TypeError)"

definition removeSet :: "nat \<Rightarrow> WorkoutForm \<Rightarrow> js_error + WorkoutForm" where
  "removeSet exerciseIndex st =
     (if exerciseIndex < length (workoutExercises st) then
        let exercise = workoutExercises st ! exerciseIndex
        in if 1 < sets exercise then
             let exercise' = exercise
               \<lparr>sets := sets exercise - 1,
                reps := butlast (reps exercise),
                weight := butlast (weight exercise)\<rparr>
             in Inr (st\<lparr>workoutExercises := (workoutExercises st)[exerciseIndex := exercise']\<rparr>)
           else Inr st
      else Inl TypeError)"

text \<open>
  The events of the rendered form. The render maps over \<open>workoutExercises\<close>, so the
  buttons of an entry carry an \<open>exerciseIndex\<close> inside the list, and it maps over
  \<open>Array.from({ length: workoutExercise.sets })\<close>, so the two inputs of a set carry a
  \<open>setIndex\<close> below \<open>sets\<close>. Picking an exercise is allowed at any time and for any
  exercise (more than the picker offers).
\<close>

datatype event =
    PickExercise Exercise
  | AddSetClick nat
  | RemoveSetClick nat
  | SetInput nat nat field jsnum

fun offered :: "WorkoutForm \<Rightarrow> event \<Rightarrow> bool" where
  "offered st (PickExercise e) = True"
| "offered st (AddSetClick i) = (i < length (workoutExercises st))"
| "offered st (RemoveSetClick i) = (i < length (workoutExercises st))"
| "offered st (SetInput i j fld val) =
     (i < length (workoutExercises st) \<and> int j < sets (workoutExercises st ! i))"

fun handler :: "event \<Rightarrow> WorkoutForm \<Rightarrow> js_error + WorkoutForm" where
  "handler (PickExercise e) st = Inr (addExercise e st)"
| "handler (AddSetClick i) st = addSet i st"
| "handler (RemoveSetClick i) st = removeSet i st"
| "handler (SetInput i j fld val) st = updateSetData i j fld val st"

text \<open>One event: a handler that throws leaves the state as it was.\<close>

definition fire :: "WorkoutForm \<Rightarrow> event \<Rightarrow> WorkoutForm" where
  "fire st ev =
     (if offered st ev then (case handler ev st of Inr st' \<Rightarrow> st' | Inl err \<Rightarrow> st) else st)"

definition run :: "event list \<Rightarrow> WorkoutForm \<Rightarrow> WorkoutForm" where
  "run evs st = foldl fire st evs"

text \<open>The state of a new form (no \<open>workout\<close> prop), with the date of today.\<close>

definition emptyForm :: "string \<Rightarrow> WorkoutForm" where
  "emptyForm today =
     \<lparr>name = [], date = today, durationMinutes = Fin 0, form_notes = [], exercises = [],
      workoutExercises = [], showExerciseSelector = False, searchTerm = [],
      loading = False\<rparr>"

text \<open>The parallel-array invariant of one entry, and of the form.\<close>

definition entry_ok :: "WorkoutExercise \<Rightarrow> bool" where
  "entry_ok we =
     (int (length (reps we)) = sets we \<and> int (length (weight we)) = sets we \<and> 1 \<le> sets we)"

definition form_ok :: "WorkoutForm \<Rightarrow> bool" where
  "form_ok st = list_all entry_ok (workoutExercises st)"

definition pushups :: Exercise where
  "pushups = \<lparr>ex_id = ''e1'', ex_name = ''Push-ups'', category = ''Bodyweight'',
     muscle_groups = [''chest'', ''triceps'', ''shoulders'']\<rparr>"

text \<open>A slot that \<open>||\<close> skips: \<open>undefined\<close>, zero or NaN.\<close>

definition falsy_slot :: "slot \<Rightarrow> bool" where
  "falsy_slot x = (case x of None \<Rightarrow> True | Some v \<Rightarrow> \<not> truthy v)"

text \<open>Sample inputs: a session of the form, and a form holding one entry with two sets.\<close>

definition demo_events :: "event list" where
  "demo_events =
     [PickExercise pushups, AddSetClick 0, SetInput 0 3 Reps (Fin 12),
      RemoveSetClick 0, RemoveSetClick 0, RemoveSetClick 0, RemoveSetClick 0,
      SetInput 0 0 Weight (Fin 22.5)]"

definition two_sets :: WorkoutForm where
  "two_sets = (emptyForm ''2025-09-15'')
     \<lparr>workoutExercises :=
        [\<lparr>we_id = None, exercise_id = ''e1'', exercise_name = ''Push-ups'', sets = 2,
          reps = [Some (Fin 10), Some (Fin 12)], weight = [Some (Fin 20), Some (Fin 0)],
          rest_seconds = Fin 60, we_notes = []\<rparr>]\<rparr>"

section \<open>WorkoutForm: the exercise picker\<close>

text \<open>
  Strings are lists of characters. \<open>toLowerCase\<close> maps the letters \<open>A\<close> to \<open>Z\<close> to
  \<open>a\<close> to \<open>z\<close> and leaves every other character (JavaScript also lowers the letters
  outside ASCII; nothing below depends on which characters are mapped).
\<close>

definition lower_char :: "char \<Rightarrow> char" where
  "lower_char c =
     (let n = (of_char c :: nat) in if 65 \<le> n \<and> n \<le> 90 then char_of (n + 32) else c)"

definition toLowerCase :: "string \<Rightarrow> string" where
  "toLowerCase s = map lower_char s"

text \<open>\<open>s.includes(t)\<close>: \<open>t\<close> starts at some position of \<open>s\<close>.\<close>

fun js_includes :: "string \<Rightarrow> string \<Rightarrow> bool" where
  "js_includes [] t = (t = [])"
| "js_includes (c # cs) t = (prefix t (c # cs) \<or> js_includes cs t)"

text \<open>
  \<open>filteredExercises\<close>:
  \<^verbatim>\<open>exercises.filter(exercise =>
    exercise.name.toLowerCase().includes(searchTerm.toLowerCase()) ||
    exercise.category.toLowerCase().includes(searchTerm.toLowerCase()))\<close>
\<close>

definition filteredExercises :: "WorkoutForm \<Rightarrow> Exercise list" where
  "filteredExercises st =
     filter (\<lambda>exercise.
         js_includes (toLowerCase (ex_name exercise)) (toLowerCase (searchTerm st))
       \<or> js_includes (toLowerCase (category exercise)) (toLowerCase (searchTerm st)))
       (exercises st)"

definition squats :: Exercise where
  "squats = \<lparr>ex_id = ''e2'', ex_name = ''Squats'', category = ''Bodyweight'',
     muscle_groups = [''quadriceps'', ''glutes'', ''hamstrings'']\<rparr>"

definition bench_press :: Exercise where
  "bench_press = \<lparr>ex_id = ''e4'', ex_name = ''Bench Press'', category = ''Strength'',
     muscle_groups = [''chest'', ''triceps'', ''shoulders'']\<rparr>"

definition picker_form :: "string \<Rightarrow> WorkoutForm" where
  "picker_form term = (emptyForm ''2025-09-15'')
     \<lparr>exercises := [bench_press, pushups, squats], showExerciseSelector := True,
      searchTerm := term\<rparr>"

section \<open>Dashboard: loading the statistics\<close>

text \<open>
  A row of the \<open>workouts\<close> table as \<open>select('*')\<close> returns it (fields prefixed \<open>w_\<close>
  where the name is taken). \<open>duration_minutes\<close> is a nullable integer column, and the code
  reads it through \<open>|| 0\<close>: \<open>None\<close> is \<open>null\<close>.
\<close>

record workout_row =
  w_id :: string
  w_user_id :: string
  w_name :: string
  w_date :: string
  duration_minutes :: "int option"
  w_notes :: "string option"
  w_created_at :: string

text \<open>A row of the recent-workouts query, and the \<open>RecentWorkout\<close> interface.\<close>

record recent_row =
  rr_id :: string
  rr_name :: string
  rr_date :: string
  rr_duration_minutes :: "int option"
  workout_exercises :: "string list option"

record RecentWorkout =
  rw_id :: string
  rw_name :: string
  rw_date :: string
  rw_duration_minutes :: "int option"
  exercise_count :: int

text \<open>What a query resolves to: \<open>{ data, error }\<close>, either of which may be \<open>null\<close>.\<close>

record 'a response =
  data :: "'a option"
  error :: "string option"

record DashboardStats =
  totalWorkouts :: int
  totalMinutes :: int
  activeGoals :: int
  weeklyWorkouts :: int

text \<open>
  The state of the \<open>Dashboard\<close> component, with the lines written to \<open>console.error\<close>.
\<close>

record Dashboard =
  stats :: DashboardStats
  recentWorkouts :: "RecentWorkout list"
  dash_loading :: bool
  console :: "string list"

definition initialDashboard :: Dashboard where
  "initialDashboard =
     \<lparr>stats = \<lparr>totalWorkouts = 0, totalMinutes = 0, activeGoals = 0, weeklyWorkouts = 0\<rparr>,
      recentWorkouts = [], dash_loading = True, console = []\<rparr>"

text \<open>\<open>x || d\<close> for a nullable integer \<open>x\<close>.\<close>

definition int_or :: "int option \<Rightarrow> int \<Rightarrow> int" where
  "int_or x d = (case x of None \<Rightarrow> d | Some n \<Rightarrow> if n \<noteq> 0 then n else d)"

text \<open>\<open>xs?.length || 0\<close>.\<close>

definition length_or_0 :: "'a list option \<Rightarrow> int" where
  "length_or_0 xs = (case xs of None \<Rightarrow> 0 | Some ys \<Rightarrow> int (length ys))"

text \<open>
  \<^verbatim>\<open>workouts?.reduce((sum, w) => sum + (w.duration_minutes || 0), 0) || 0\<close>
\<close>

definition totalMinutes_of :: "workout_row list option \<Rightarrow> int" where
  "totalMinutes_of workouts =
     (case workouts of
        None \<Rightarrow> 0
      | Some ws \<Rightarrow>
          int_or (Some (foldl (\<lambda>sum w. sum + int_or (duration_minutes w) 0) 0 ws)) 0)"

text \<open>
  Times are milliseconds since the epoch. The local time zone of the engine is a
  parameter, as ECMAScript has it: the offset of local time from UTC at a UTC instant
  (\<open>LocalTZA(t, true)\<close>) and the offset taken for a local time (\<open>LocalTZA(t, false)\<close>).
\<close>

record time_zone =
  offset_at_utc :: "int \<Rightarrow> int"
  offset_at_local :: "int \<Rightarrow> int"

definition day_ms :: int where
  "day_ms = 86400000"

definition LocalTime :: "time_zone \<Rightarrow> int \<Rightarrow> int" where
  "LocalTime tz t = t + offset_at_utc tz t"

definition UTC_of :: "time_zone \<Rightarrow> int \<Rightarrow> int" where
  "UTC_of tz t = t - offset_at_local tz t"

text \<open>
  \<open>weekAgo\<close> is \<open>new Date()\<close> changed by \<open>setDate(getDate() - 7)\<close>. \<open>setDate\<close> takes the
  local time of the date, puts the day seven days back (\<open>MakeDay\<close> of the same year and
  month with the date minus 7: the day number minus 7), keeps the time within the day
  and converts the result back to UTC. The range check of \<open>TimeClip\<close> is left out.
\<close>

definition weekAgo :: "time_zone \<Rightarrow> int \<Rightarrow> int" where
  "weekAgo tz now =
     (let t = LocalTime tz now;
          newDate = (t div day_ms - 7) * day_ms + t mod day_ms
      in UTC_of tz newDate)"

text \<open>
  By how much the zone's offset at \<open>now\<close> exceeds its offset seven local days before
  (0 in a zone with a fixed offset, one hour across a spring change of clocks).
\<close>

definition offset_shift :: "time_zone \<Rightarrow> int \<Rightarrow> int" where
  "offset_shift tz now =
     offset_at_utc tz now - offset_at_local tz (now + offset_at_utc tz now - 7 * day_ms)"

text \<open>
  \<^verbatim>\<open>workouts?.filter(w => new Date(w.date) >= weekAgo).length || 0\<close>
  The engine's \<open>new Date(string)\<close> is the parameter \<open>parseDate\<close>: the time value of the
  date, or \<open>None\<close> for an invalid date, whose time value NaN compares false. The \<open>date\<close>
  column holds a date without a time, which the engine reads as midnight UTC of that day.
\<close>

definition weeklyFilter ::
  "(string \<Rightarrow> int option) \<Rightarrow> time_zone \<Rightarrow> int \<Rightarrow> workout_row list \<Rightarrow> workout_row list" where
  "weeklyFilter parseDate tz now ws =
     filter (\<lambda>w. case parseDate (w_date w) of None \<Rightarrow> False | Some t \<Rightarrow> weekAgo tz now \<le> t) ws"

definition weeklyWorkouts_of ::
  "(string \<Rightarrow> int option) \<Rightarrow> time_zone \<Rightarrow> int \<Rightarrow> workout_row list option \<Rightarrow> int" where
  "weeklyWorkouts_of parseDate tz now workouts =
     length_or_0 (map_option (weeklyFilter parseDate tz now) workouts)"

definition formattedRecent :: "recent_row list option \<Rightarrow> RecentWorkout list" where
  "formattedRecent rows =
     (case rows of
        None \<Rightarrow> []
      | Some rs \<Rightarrow>
          map (\<lambda>workout.
                \<lparr>rw_id = rr_id workout, rw_name = rr_name workout, rw_date = rr_date workout,
                 rw_duration_minutes = rr_duration_minutes workout,
                 exercise_count = length_or_0 (workout_exercises workout)\<rparr>) rs)"

text \<open>
  \<open>loadDashboardData\<close>. The three queries run in order, each awaited; an error of one is
  thrown, caught by the one \<open>catch\<close> (which logs it) and the later queries are not
  issued. \<open>setStats\<close> stands between the second and the third query. \<open>finally\<close> clears
  \<open>loading\<close>.
\<close>

definition log_error :: "string \<Rightarrow> Dashboard \<Rightarrow> Dashboard" where
  "log_error e st = st\<lparr>console := console st @ [''Error loading dashboard data: '' @ e]\<rparr>"

definition loadDashboardData ::
  "(string \<Rightarrow> int option) \<Rightarrow> time_zone \<Rightarrow> int \<Rightarrow> workout_row list response
     \<Rightarrow> Goal list response
     \<Rightarrow> recent_row list response \<Rightarrow> Dashboard \<Rightarrow> Dashboard" where
  "loadDashboardData parseDate tz now workoutsR goalsR recentR st0 =
     (let st1 = st0\<lparr>dash_loading := True\<rparr>;
          st' =
            (case error workoutsR of
               Some e \<Rightarrow> log_error e st1
             | None \<Rightarrow>
                 (case error goalsR of
                    Some e \<Rightarrow> log_error e st1
                  | None \<Rightarrow>
                      let st2 = st1\<lparr>stats :=
                            \<lparr>totalWorkouts = length_or_0 (data workoutsR),
                             totalMinutes = totalMinutes_of (data workoutsR),
                             activeGoals = length_or_0 (data goalsR),
                             weeklyWorkouts = weeklyWorkouts_of parseDate tz now (data workoutsR)\<rparr>\<rparr>
                      in (case error recentR of
                            Some e \<Rightarrow> log_error e st2
                          | None \<Rightarrow> st2\<lparr>recentWorkouts := formattedRecent (data recentR)\<rparr>)))
      in st'\<lparr>dash_loading := False\<rparr>)"

text \<open>Sample inputs.\<close>

definition a_workout :: "string \<Rightarrow> int option \<Rightarrow> workout_row" where
  "a_workout d m =
     \<lparr>w_id = ''w1'', w_user_id = ''u1'', w_name = ''Morning'', w_date = d,
      duration_minutes = m, w_notes = None, w_created_at = ''2025-09-08T07:00:00Z''\<rparr>"

definition ok_response :: "'a \<Rightarrow> 'a response" where
  "ok_response x = \<lparr>data = Some x, error = None\<rparr>"

definition failed_response :: "string \<Rightarrow> 'a response" where
  "failed_response e = \<lparr>data = None, error = Some e\<rparr>"

text \<open>
  A parser that knows three dates: 2025-09-08, 2025-09-07 and 2025-03-06, each at
  midnight UTC, as \<open>new Date('YYYY-MM-DD')\<close> reads a date-only string.
\<close>

definition sample_parse :: "string \<Rightarrow> int option" where
  "sample_parse s =
     (if s = ''2025-09-08'' then Some 1757289600000
      else if s = ''2025-09-07'' then Some 1757203200000
      else if s = ''2025-03-06'' then Some 1741219200000
      else None)"

text \<open>
  Two zones: UTC, and New York around the change of clocks of 9 March 2025 (from five to
  four hours behind UTC at 07:00 UTC; a local time before 03:00 of that day is read with
  the earlier offset).
\<close>

definition utc_zone :: time_zone where
  "utc_zone = \<lparr>offset_at_utc = (\<lambda>t. 0), offset_at_local = (\<lambda>t. 0)\<rparr>"

definition new_york_zone :: time_zone where
  "new_york_zone =
     \<lparr>offset_at_utc = (\<lambda>t. if t < 1741503600000 then - 18000000 else - 14400000),
      offset_at_local = (\<lambda>t. if t < 1741489200000 then - 18000000 else - 14400000)\<rparr>"

section \<open>WorkoutForm: saving\<close>

text \<open>
  \<open>name.trim()\<close>: the string without leading and trailing white space (the white space
  of ASCII: space, tab, line feed, vertical tab, form feed, carriage return). JavaScript
  also strips the white space outside ASCII, such as U+00A0, which this model keeps: a
  name made of such characters only is refused by the code and accepted here.
\<close>

definition is_space :: "char \<Rightarrow> bool" where
  "is_space c = (c \<in> set [CHR '' '', CHR 0x09, CHR 0x0A, CHR 0x0B, CHR 0x0C, CHR 0x0D])"

definition trim :: "string \<Rightarrow> string" where
  "trim s = rev (dropWhile is_space (rev (dropWhile is_space s)))"

text \<open>
  The requests \<open>handleSave\<close> sends: the fields of a workout (with the owner when the
  workout is created), and the rows of \<open>workout_exercises\<close> built from the entries of the
  form.
\<close>

record workout_payload =
  p_user_id :: "string option"
  p_name :: string
  p_date :: string
  p_duration_minutes :: jsnum
  p_notes :: string

record we_row =
  row_workout_id :: string
  row_exercise_id :: string
  row_sets :: int
  row_reps :: "slot list"
  row_weight :: "slot list"
  row_rest_seconds :: jsnum
  row_notes :: string

datatype request =
    UpdateWorkout string workout_payload
  | DeleteWorkoutExercises string
  | InsertWorkout workout_payload
  | InsertWorkoutExercises "we_row list"

text \<open>
  Modelled from the spec: the persisted store, an external service that the views reach
  through \<open>insert\<close>, \<open>update\<close>-by-filter and \<open>delete\<close>-by-filter calls. It holds the
  \<open>workouts\<close> rows by id and the \<open>workout_exercises\<close> rows. A request that the store
  accepts changes the rows as the call says; a request that it rejects changes nothing
  and resolves to an error. Which requests are rejected is the parameter \<open>fails\<close>, and
  \<open>fresh\<close> is the id the store gives a new workout.
\<close>

record backend =
  workouts_tbl :: "(string \<times> workout_payload) list"
  workout_exercises_tbl :: "we_row list"

fun apply_request :: "string \<Rightarrow> request \<Rightarrow> backend \<Rightarrow> backend" where
  "apply_request fresh (UpdateWorkout wid p) db =
     db\<lparr>workouts_tbl :=
          map (\<lambda>(i, old). if i = wid
                 then (i, old\<lparr>p_name := p_name p, p_date := p_date p,
                              p_duration_minutes := p_duration_minutes p,
                              p_notes := p_notes p\<rparr>)
                 else (i, old)) (workouts_tbl db)\<rparr>"
| "apply_request fresh (DeleteWorkoutExercises wid) db =
     db\<lparr>workout_exercises_tbl :=
          filter (\<lambda>r. row_workout_id r \<noteq> wid) (workout_exercises_tbl db)\<rparr>"
| "apply_request fresh (InsertWorkout p) db =
     db\<lparr>workouts_tbl := workouts_tbl db @ [(fresh, p)]\<rparr>"
| "apply_request fresh (InsertWorkoutExercises rows) db =
     db\<lparr>workout_exercises_tbl := workout_exercises_tbl db @ rows\<rparr>"

text \<open>
  One awaited call: the request is recorded as issued; the second component tells whether
  it resolved without an error.
\<close>

definition send ::
  "(request \<Rightarrow> bool) \<Rightarrow> string \<Rightarrow> request \<Rightarrow> backend \<times> request list
     \<Rightarrow> (backend \<times> request list) \<times> bool" where
  "send fails fresh rq s =
     (if fails rq then ((fst s, snd s @ [rq]), False)
      else ((apply_request fresh rq (fst s), snd s @ [rq]), True))"

text \<open>What a call of \<open>handleSave\<close> leaves behind.\<close>

record save_result =
  backend_after :: backend
  issued :: "request list"
  alerts :: "string list"
  save_console :: "string list"
  onSave_called :: bool
  form_after :: WorkoutForm

definition workout_fields :: "string option \<Rightarrow> WorkoutForm \<Rightarrow> workout_payload" where
  "workout_fields owner st =
     \<lparr>p_user_id = owner, p_name = name st, p_date = date st,
      p_duration_minutes = durationMinutes st, p_notes = form_notes st\<rparr>"

definition exerciseInserts :: "string \<Rightarrow> WorkoutExercise list \<Rightarrow> we_row list" where
  "exerciseInserts workoutId wes =
     map (\<lambda>we. \<lparr>row_workout_id = workoutId, row_exercise_id = exercise_id we,
                 row_sets = sets we, row_reps = reps we, row_weight = weight we,
                 row_rest_seconds = rest_seconds we, row_notes = we_notes we\<rparr>) wes"

text \<open>
  The first half of the \<open>try\<close> block. With a \<open>workout\<close> prop (here its id), the workout
  is updated and then its exercise rows are deleted; without one, a workout is inserted
  and its new id is read. Each error is thrown: the result is \<open>None\<close> then, and the id of
  the workout otherwise.
\<close>

definition save_workout ::
  "(request \<Rightarrow> bool) \<Rightarrow> string \<Rightarrow> string \<Rightarrow> string option \<Rightarrow> WorkoutForm \<Rightarrow> backend
     \<Rightarrow> (backend \<times> request list) \<times> string option" where
  "save_workout fails fresh user_id workout st db =
     (case workout of
        Some wid \<Rightarrow>
          (case send fails fresh (UpdateWorkout wid (workout_fields None st)) (db, []) of
             (s1, False) \<Rightarrow> (s1, None)
           | (s1, True) \<Rightarrow>
               (case send fails fresh (DeleteWorkoutExercises wid) s1 of
                  (s2, False) \<Rightarrow> (s2, None)
                | (s2, True) \<Rightarrow> (s2, Some wid)))
      | None \<Rightarrow>
          (case send fails fresh (InsertWorkout (workout_fields (Some user_id) st)) (db, []) of
             (s1, False) \<Rightarrow> (s1, None)
           | (s1, True) \<Rightarrow> (s1, Some fresh)))"

text \<open>The \<open>catch\<close> and the normal end of the \<open>try\<close>, each followed by \<open>finally\<close>.\<close>

definition save_failed :: "WorkoutForm \<Rightarrow> backend \<times> request list \<Rightarrow> save_result" where
  "save_failed st s =
     \<lparr>backend_after = fst s, issued = snd s,
      alerts = [''Error saving workout. Please try again.''],
      save_console = [''Error saving workout:''], onSave_called = False,
      form_after = st\<lparr>loading := False\<rparr>\<rparr>"

definition save_done :: "WorkoutForm \<Rightarrow> backend \<times> request list \<Rightarrow> save_result" where
  "save_done st s =
     \<lparr>backend_after = fst s, issued = snd s, alerts = [], save_console = [],
      onSave_called = True, form_after = st\<lparr>loading := False\<rparr>\<rparr>"

text \<open>
  \<open>handleSave\<close>. A blank name is refused with an alert before anything is sent. The rows
  of the entries are inserted only when the form has entries.
\<close>

definition handleSave ::
  "(request \<Rightarrow> bool) \<Rightarrow> string \<Rightarrow> string \<Rightarrow> string option \<Rightarrow> WorkoutForm \<Rightarrow> backend
     \<Rightarrow> save_result" where
  "handleSave fails fresh user_id workout st db =
     (if trim (name st) = [] then
        \<lparr>backend_after = db, issued = [], alerts = [''Please enter a workout name''],
         save_console = [], onSave_called = False, form_after = st\<rparr>
      else
        (case save_workout fails fresh user_id workout st db of
           (s1, None) \<Rightarrow> save_failed st s1
         | (s1, Some workoutId) \<Rightarrow>
             if workoutExercises st \<noteq> [] then
               (case send fails fresh
                       (InsertWorkoutExercises (exerciseInserts workoutId (workoutExercises st)))
                       s1 of
                  (s2, False) \<Rightarrow> save_failed st s2
                | (s2, True) \<Rightarrow> save_done st s2)
             else save_done st s1))"

text \<open>The rows of one workout in the store.\<close>

definition rows_of :: "string \<Rightarrow> backend \<Rightarrow> we_row list" where
  "rows_of wid db = filter (\<lambda>r. row_workout_id r = wid) (workout_exercises_tbl db)"

text \<open>
  Sample inputs: a store with two workouts, \<open>w1\<close> holding two exercise rows and \<open>w2\<close>
  one; the form of \<open>w1\<close> being edited; a store that rejects every insert of exercise rows.
\<close>

definition a_row :: "string \<Rightarrow> string \<Rightarrow> we_row" where
  "a_row wid eid =
     \<lparr>row_workout_id = wid, row_exercise_id = eid, row_sets = 1, row_reps = [Some (Fin 8)],
      row_weight = [Some (Fin 40)], row_rest_seconds = Fin 60, row_notes = []\<rparr>"

definition a_backend :: backend where
  "a_backend =
     \<lparr>workouts_tbl =
        [(''w1'', \<lparr>p_user_id = Some ''u1'', p_name = ''Morning'', p_date = ''2025-09-08'',
                   p_duration_minutes = Fin 30, p_notes = []\<rparr>),
         (''w2'', \<lparr>p_user_id = Some ''u1'', p_name = ''Evening'', p_date = ''2025-09-09'',
                   p_duration_minutes = Fin 45, p_notes = []\<rparr>)],
      workout_exercises_tbl = [a_row ''w1'' ''e1'', a_row ''w2'' ''e2'', a_row ''w1'' ''e4'']\<rparr>"

definition edit_form :: WorkoutForm where
  "edit_form = two_sets\<lparr>name := ''Morning'', date := ''2025-09-08'',
     durationMinutes := Fin 35\<rparr>"

definition inserts_fail :: "request \<Rightarrow> bool" where
  "inserts_fail rq = (case rq of InsertWorkoutExercises rows \<Rightarrow> True | _ \<Rightarrow> False)"

section \<open>Properties of the progress percentage\<close>

lemma getProgress_finite:
  assumes "target_value goal = Fin t" and "current_value goal = Fin c" and "t \<noteq> 0"
  shows "getProgress goal = Fin (min (c / t * 100) 100)"
  using assms by (simp add: getProgress_def)

text \<open>
  C1 (as the code has it). For a goal with finite current value \<open>c\<close> and finite nonzero
  target \<open>t\<close>, \<open>getProgress\<close> is \<open>min(c/t*100, 100)\<close>: an upper bound only. It agrees with
  \<open>clamp(c/t*100, 0, 100)\<close>, and so is not below 0, whenever \<open>c/t\<close> is not negative;
  \<open>c = 50, t = 200\<close> gives 25 and \<open>c = 250, t = 200\<close> gives 100.
\<close>

theorem getProgress_upper_clamp:
  assumes "target_value goal = Fin t" and "current_value goal = Fin c" and "t \<noteq> 0"
  shows "getProgress goal = Fin (min (c / t * 100) 100)
       \<and> (0 \<le> c / t \<longrightarrow> getProgress goal = Fin (spec_clamp (c / t * 100) 0 100))
       \<and> getProgress (a_goal 50 200) = Fin 25
       \<and> getProgress (a_goal 250 200) = Fin 100"
proof -
  have main: "getProgress goal = Fin (min (c / t * 100) 100)"
    using assms by (rule getProgress_finite)
  have clamp: "0 \<le> c / t \<Longrightarrow> getProgress goal = Fin (spec_clamp (c / t * 100) 0 100)"
  proof -
    assume nonneg: "0 \<le> c / t"
    have "0 \<le> c / t * 100"
      by (rule mult_nonneg_nonneg [OF nonneg]) simp
    then have "spec_clamp (c / t * 100) 0 100 = min (c / t * 100) 100"
      by (simp add: spec_clamp_def min_def max_def)
    with main show ?thesis by simp
  qed
  have e1: "getProgress (a_goal 50 200) = Fin 25"
    by (simp add: getProgress_def a_goal_def)
  have e2: "getProgress (a_goal 250 200) = Fin 100"
    by (simp add: getProgress_def a_goal_def)
  from main clamp e1 e2 show ?thesis by blast
qed

theorem getProgress_upper_clamp_witness:
  "getProgress (a_goal 30 120) = Fin 25
   \<and> getProgress (a_goal 30 120) = Fin (spec_clamp (30 / 120 * 100) 0 100)"
  using getProgress_upper_clamp [of "a_goal 30 120" 120 30]
  by (simp add: a_goal_def spec_clamp_def)

text \<open>
  C1 as stated fails: with \<open>c = -50, t = 200\<close> the code returns \<open>-25\<close>, which is below 0
  and is not \<open>clamp(-25, 0, 100) = 0\<close>.
\<close>

theorem getProgress_negative_counterexample:
  "getProgress (a_goal (-50) 200) = Fin (-25)
   \<and> getProgress (a_goal (-50) 200) \<noteq> Fin (spec_clamp ((-50) / 200 * 100) 0 100)"
  by (simp add: getProgress_def a_goal_def spec_clamp_def)

text \<open>
  C2. For a goal with target value 0 and a positive current value the computation returns
  a value, 100: the division gives \<open>Infinity\<close>, the product is \<open>Infinity\<close>, and
  \<open>Math.min(Infinity, 100)\<close> is 100. No operation of \<open>getProgress\<close> throws.
\<close>

theorem getProgress_zero_target:
  assumes "target_value goal = Fin 0" and "current_value goal = Fin c" and "0 < c"
  shows "getProgress goal = Fin 100"
  using assms by (simp add: getProgress_def)

theorem getProgress_zero_target_witness:
  "getProgress (a_goal 5 0) = Fin 100"
  using getProgress_zero_target [of "a_goal 5 0" 5]
  by (simp add: a_goal_def)

section \<open>Properties of the WorkoutForm entries\<close>

lemma list_all_update:
  assumes "list_all P xs" and "P x"
  shows "list_all P (xs[i := x])"
proof -
  have "set (xs[i := x]) \<subseteq> insert x (set xs)"
    by (rule set_update_subset_insert)
  with assms show ?thesis
    by (auto simp: list_all_iff)
qed

lemma list_all_nth:
  assumes "list_all P xs" and "i < length xs"
  shows "P (xs ! i)"
  using assms by (simp add: list_all_length)

lemma length_js_set_inside:
  "i < length xs \<Longrightarrow> length (js_set xs i v) = length xs"
  by (simp add: js_set_def)

lemma length_js_set_outside:
  "length xs \<le> i \<Longrightarrow> length (js_set xs i v) = Suc i"
  by (simp add: js_set_def)

lemma form_ok_addExercise:
  assumes "form_ok st"
  shows "form_ok (addExercise e st)"
  using assms by (simp add: form_ok_def addExercise_def entry_ok_def)

lemma form_ok_addSet:
  assumes "form_ok st" and "addSet i st = Inr st'"
  shows "form_ok st'"
proof (cases "i < length (workoutExercises st)")
  case True
  let ?we = "workoutExercises st ! i"
  from assms(1) True have ok: "entry_ok ?we"
    unfolding form_ok_def by (rule list_all_nth)
  from True assms(2) obtain we' where
    st': "st' = st\<lparr>workoutExercises := (workoutExercises st)[i := we']\<rparr>" and
    s: "sets we' = sets ?we + 1" and
    r: "length (reps we') = Suc (length (reps ?we))" and
    w: "length (weight we') = Suc (length (weight ?we))"
    by (auto simp: addSet_def Let_def)
  from ok s r w have "entry_ok we'"
    by (simp add: entry_ok_def)
  with assms(1) show ?thesis
    unfolding st' form_ok_def by (simp add: list_all_update)
next
  case False
  with assms(2) show ?thesis by (simp add: addSet_def)
qed

lemma form_ok_removeSet:
  assumes "form_ok st" and "removeSet i st = Inr st'"
  shows "form_ok st'"
proof (cases "i < length (workoutExercises st) \<and> 1 < sets (workoutExercises st ! i)")
  case True
  let ?we = "workoutExercises st ! i"
  from assms(1) True have ok: "entry_ok ?we"
    unfolding form_ok_def by (simp add: list_all_nth)
  from True assms(2) obtain we' where
    st': "st' = st\<lparr>workoutExercises := (workoutExercises st)[i := we']\<rparr>" and
    s: "sets we' = sets ?we - 1" and
    r: "length (reps we') = length (reps ?we) - 1" and
    w: "length (weight we') = length (weight ?we) - 1"
    by (auto simp: removeSet_def Let_def)
  from ok s r w True have "entry_ok we'"
    by (simp add: entry_ok_def)
  with assms(1) show ?thesis
    unfolding st' form_ok_def by (simp add: list_all_update)
next
  case False
  with assms(2) have "st' = st"
    by (auto simp: removeSet_def Let_def split: if_splits)
  with assms(1) show ?thesis by simp
qed

lemma form_ok_updateSetData:
  assumes "form_ok st" and "i < length (workoutExercises st)"
    and "int j < sets (workoutExercises st ! i)"
    and "updateSetData i j fld val st = Inr st'"
  shows "form_ok st'"
proof -
  let ?we = "workoutExercises st ! i"
  from assms(1,2) have ok: "entry_ok ?we"
    unfolding form_ok_def by (rule list_all_nth)
  with assms(3) have jr: "j < length (reps ?we)" and jw: "j < length (weight ?we)"
    by (simp_all add: entry_ok_def)
  define we' where "we' =
    (case fld of Reps \<Rightarrow> ?we\<lparr>reps := js_set (reps ?we) j val\<rparr>
     | Weight \<Rightarrow> ?we\<lparr>weight := js_set (weight ?we) j val\<rparr>)"
  from assms(2,4) have st': "st' = st\<lparr>workoutExercises := (workoutExercises st)[i := we']\<rparr>"
    by (simp add: updateSetData_def Let_def we'_def)
  from ok jr jw have "entry_ok we'"
    by (cases fld) (simp_all add: we'_def entry_ok_def length_js_set_inside)
  with assms(1) show ?thesis
    unfolding st' form_ok_def by (simp add: list_all_update)
qed

lemma form_ok_fire:
  assumes "form_ok st"
  shows "form_ok (fire st ev)"
proof (cases "offered st ev")
  case False
  with assms show ?thesis by (simp add: fire_def)
next
  case True
  show ?thesis
  proof (cases "handler ev st")
    case (Inl err)
    with assms show ?thesis by (simp add: fire_def)
  next
    case (Inr st')
    have "form_ok st'"
    proof (cases ev)
      case (PickExercise e)
      with Inr assms show ?thesis by (auto simp: form_ok_addExercise)
    next
      case (AddSetClick i)
      with Inr assms show ?thesis by (auto intro: form_ok_addSet)
    next
      case (RemoveSetClick i)
      with Inr assms show ?thesis by (auto intro: form_ok_removeSet)
    next
      case (SetInput i j fld val)
      with Inr True assms show ?thesis by (auto intro: form_ok_updateSetData)
    qed
    with Inr True show ?thesis by (simp add: fire_def)
  qed
qed

lemma form_ok_run:
  assumes "form_ok st"
  shows "form_ok (run evs st)"
  using assms unfolding run_def
  by (induction evs arbitrary: st) (simp_all add: form_ok_fire)

lemma removeSet_at_one:
  assumes "i < length (workoutExercises st)" and "sets (workoutExercises st ! i) \<le> 1"
  shows "removeSet i st = Inr st"
  using assms by (simp add: removeSet_def)

text \<open>
  C3. From a form with no entries, after any sequence of the form's events (picking an
  exercise, Add Set, Remove Set, editing the reps or weight of a rendered set), every
  entry has \<open>reps\<close> and \<open>weight\<close> arrays of length \<open>sets\<close>, and \<open>sets\<close> is at least 1.
  \<open>removeSet\<close> on an entry with \<open>sets = 1\<close> returns the state unchanged.
\<close>

theorem workoutForm_parallel_arrays:
  assumes "workoutExercises st0 = []"
  shows "form_ok (run evs st0)
       \<and> (\<forall>we \<in> set (workoutExercises (run evs st0)).
            int (length (reps we)) = sets we \<and> int (length (weight we)) = sets we
            \<and> 1 \<le> sets we)
       \<and> (\<forall>st i. i < length (workoutExercises st) \<longrightarrow> sets (workoutExercises st ! i) = 1
            \<longrightarrow> removeSet i st = Inr st \<and> fire st (RemoveSetClick i) = st)"
proof -
  from assms have "form_ok st0" by (simp add: form_ok_def)
  then have inv: "form_ok (run evs st0)" by (rule form_ok_run)
  then have each: "\<forall>we \<in> set (workoutExercises (run evs st0)).
            int (length (reps we)) = sets we \<and> int (length (weight we)) = sets we
            \<and> 1 \<le> sets we"
    by (simp add: form_ok_def list_all_iff entry_ok_def)
  have noop: "removeSet i st = Inr st \<and> fire st (RemoveSetClick i) = st"
    if "i < length (workoutExercises st)" and "sets (workoutExercises st ! i) = 1" for st i
    using that by (simp add: removeSet_at_one fire_def)
  from inv each noop show ?thesis by blast
qed


lemma demo_run:
  "workoutExercises (run demo_events (emptyForm ''2025-09-15'')) =
     [\<lparr>we_id = None, exercise_id = ''e1'', exercise_name = ''Push-ups'', sets = 1,
       reps = [Some (Fin 10)], weight = [Some (Fin 22.5)], rest_seconds = Fin 60,
       we_notes = []\<rparr>]"
  by (simp add: demo_events_def run_def fire_def emptyForm_def addExercise_def addSet_def
      removeSet_def updateSetData_def js_set_def js_get_def or_default_def pushups_def Let_def)


theorem workoutForm_parallel_arrays_witness:
  "workoutExercises (emptyForm ''2025-09-15'') = []
   \<and> form_ok (run demo_events (emptyForm ''2025-09-15''))
   \<and> removeSet 0 (run demo_events (emptyForm ''2025-09-15''))
       = Inr (run demo_events (emptyForm ''2025-09-15''))"
proof -
  let ?S = "run demo_events (emptyForm ''2025-09-15'')"
  have e: "workoutExercises (emptyForm ''2025-09-15'') = []"
    by (simp add: emptyForm_def)
  note inst = workoutForm_parallel_arrays [OF e, of demo_events]
  from inst have ok: "form_ok ?S" by (rule conjunct1)
  have one: "0 < length (workoutExercises ?S)" "sets (workoutExercises ?S ! 0) = 1"
    by (simp_all add: demo_run)
  from inst one have "removeSet 0 ?S = Inr ?S" by blast
  with e ok show ?thesis by blast
qed

text \<open>
  The bound on \<open>setIndex\<close> comes from the render, not from \<open>updateSetData\<close>: called with
  an index past the end, the handler grows the array and \<open>sets\<close> stays as it was.
\<close>

lemma updateSetData_past_end:
  "map_sum id (\<lambda>st. map (\<lambda>we. (sets we, length (reps we))) (workoutExercises st))
     (updateSetData 0 5 Reps (Fin 7) (addExercise pushups (emptyForm ''2025-09-15'')))
   = Inr [(3, 6)]"
  by (simp add: updateSetData_def addExercise_def emptyForm_def js_set_def pushups_def Let_def)

text \<open>
  C7. \<open>addExercise\<close> appends one entry, for the exercise picked, with \<open>sets = 3\<close>,
  \<open>reps = [10, 10, 10]\<close> and \<open>weight = [0, 0, 0]\<close>; the entries already in the list
  are unchanged.
\<close>

theorem addExercise_appends:
  "length (workoutExercises (addExercise e st)) = Suc (length (workoutExercises st))
   \<and> take (length (workoutExercises st)) (workoutExercises (addExercise e st))
       = workoutExercises st
   \<and> sets (last (workoutExercises (addExercise e st))) = 3
   \<and> reps (last (workoutExercises (addExercise e st)))
       = [Some (Fin 10), Some (Fin 10), Some (Fin 10)]
   \<and> weight (last (workoutExercises (addExercise e st)))
       = [Some (Fin 0), Some (Fin 0), Some (Fin 0)]
   \<and> exercise_id (last (workoutExercises (addExercise e st))) = ex_id e
   \<and> exercise_name (last (workoutExercises (addExercise e st))) = ex_name e"
  by (simp add: addExercise_def)

lemma js_get_last:
  "js_get xs (int (length xs) - 1) = (if xs = [] then None else last xs)"
  by (cases xs rule: rev_cases) (simp_all add: js_get_def nth_append)

lemma pushed_value:
  "Some (or_default (js_get xs (int (length xs) - 1)) d)
   = (if xs = [] \<or> falsy_slot (last xs) then Some d else last xs)"
  by (simp add: js_get_last or_default_def falsy_slot_def split: option.splits)

text \<open>
  C10. \<open>addSet\<close> on an entry of the list adds 1 to \<open>sets\<close> and appends to \<open>reps\<close> and to
  \<open>weight\<close> a copy of the array's last element; when the array is empty or its last
  element is falsy, it appends 10 to \<open>reps\<close> and 0 to \<open>weight\<close>. The other entries are
  unchanged.
\<close>

theorem addSet_copies_last:
  assumes "i < length (workoutExercises st)"
  shows "\<exists>st'. addSet i st = Inr st'
     \<and> length (workoutExercises st') = length (workoutExercises st)
     \<and> (\<forall>k < length (workoutExercises st). k \<noteq> i \<longrightarrow>
          workoutExercises st' ! k = workoutExercises st ! k)
     \<and> sets (workoutExercises st' ! i) = sets (workoutExercises st ! i) + 1
     \<and> reps (workoutExercises st' ! i) = reps (workoutExercises st ! i) @
          [if reps (workoutExercises st ! i) = []
              \<or> falsy_slot (last (reps (workoutExercises st ! i)))
           then Some (Fin 10) else last (reps (workoutExercises st ! i))]
     \<and> weight (workoutExercises st' ! i) = weight (workoutExercises st ! i) @
          [if weight (workoutExercises st ! i) = []
              \<or> falsy_slot (last (weight (workoutExercises st ! i)))
           then Some (Fin 0) else last (weight (workoutExercises st ! i))]"
  using assms by (simp add: addSet_def Let_def pushed_value)

theorem addSet_copies_last_witness:
  "\<exists>st'. addSet 0 two_sets = Inr st'
     \<and> sets (workoutExercises st' ! 0) = 3
     \<and> reps (workoutExercises st' ! 0) = [Some (Fin 10), Some (Fin 12), Some (Fin 12)]
     \<and> weight (workoutExercises st' ! 0) = [Some (Fin 20), Some (Fin 0), Some (Fin 0)]"
proof -
  have len: "0 < length (workoutExercises two_sets)"
    by (simp add: two_sets_def emptyForm_def)
  from addSet_copies_last [OF len] obtain st' where
    r: "addSet 0 two_sets = Inr st'" and
    s: "sets (workoutExercises st' ! 0) = sets (workoutExercises two_sets ! 0) + 1" and
    p: "reps (workoutExercises st' ! 0) = reps (workoutExercises two_sets ! 0) @
          [if reps (workoutExercises two_sets ! 0) = []
              \<or> falsy_slot (last (reps (workoutExercises two_sets ! 0)))
           then Some (Fin 10) else last (reps (workoutExercises two_sets ! 0))]" and
    w: "weight (workoutExercises st' ! 0) = weight (workoutExercises two_sets ! 0) @
          [if weight (workoutExercises two_sets ! 0) = []
              \<or> falsy_slot (last (weight (workoutExercises two_sets ! 0)))
           then Some (Fin 0) else last (weight (workoutExercises two_sets ! 0))]"
    by blast
  have "sets (workoutExercises st' ! 0) = 3"
    using s by (simp add: two_sets_def emptyForm_def)
  moreover have "reps (workoutExercises st' ! 0) = [Some (Fin 10), Some (Fin 12), Some (Fin 12)]"
    using p by (simp add: two_sets_def emptyForm_def falsy_slot_def)
  moreover have "weight (workoutExercises st' ! 0) = [Some (Fin 20), Some (Fin 0), Some (Fin 0)]"
    using w by (simp add: two_sets_def emptyForm_def falsy_slot_def)
  ultimately show ?thesis using r by blast
qed


section \<open>Properties of the exercise picker\<close>

lemma js_includes_iff:
  "js_includes s t \<longleftrightarrow> (\<exists>p q. s = p @ t @ q)"
proof (induction s)
  case Nil
  show ?case by auto
next
  case (Cons c cs)
  show ?case
  proof
    assume "js_includes (c # cs) t"
    then consider "prefix t (c # cs)" | "js_includes cs t" by auto
    then show "\<exists>p q. c # cs = p @ t @ q"
    proof cases
      case 1
      then obtain q where "c # cs = t @ q" by (auto simp: prefix_def)
      then have "c # cs = [] @ t @ q" by simp
      then show ?thesis by blast
    next
      case 2
      with Cons.IH obtain p q where "cs = p @ t @ q" by blast
      then have "c # cs = (c # p) @ t @ q" by simp
      then show ?thesis by blast
    qed
  next
    assume "\<exists>p q. c # cs = p @ t @ q"
    then obtain p q where pq: "c # cs = p @ t @ q" by blast
    show "js_includes (c # cs) t"
    proof (cases p)
      case Nil
      with pq have "prefix t (c # cs)" by (simp add: prefix_def)
      then show ?thesis by simp
    next
      case (Cons a p')
      with pq have "cs = p' @ t @ q" by simp
      with Cons.IH have "js_includes cs t" by blast
      then show ?thesis by simp
    qed
  qed
qed

text \<open>
  C8. An exercise is in the picker's filtered list exactly when it is in the fetched
  catalog and the lowercased search term is a substring of its lowercased name or of its
  lowercased category.
\<close>

theorem filteredExercises_iff:
  "e \<in> set (filteredExercises st) \<longleftrightarrow>
     e \<in> set (exercises st)
     \<and> ((\<exists>p q. toLowerCase (ex_name e) = p @ toLowerCase (searchTerm st) @ q)
        \<or> (\<exists>p q. toLowerCase (category e) = p @ toLowerCase (searchTerm st) @ q))"
  by (simp add: filteredExercises_def js_includes_iff)

lemma lower_char_simps:
  "toLowerCase ''PRESS'' = ''press''" "toLowerCase ''Bench Press'' = ''bench press''"
  "toLowerCase ''Push-ups'' = ''push-ups''" "toLowerCase ''Squats'' = ''squats''"
  "toLowerCase ''Bodyweight'' = ''bodyweight''" "toLowerCase ''Strength'' = ''strength''"
  "toLowerCase ''BODY'' = ''body''"
  by (simp_all add: toLowerCase_def lower_char_def Let_def char_of_def bit_0)

lemma picker_examples:
  "filteredExercises (picker_form ''PRESS'') = [bench_press]"
  "filteredExercises (picker_form ''BODY'') = [pushups, squats]"
  "filteredExercises (picker_form []) = [bench_press, pushups, squats]"
  by (simp_all add: filteredExercises_def picker_form_def emptyForm_def bench_press_def
      pushups_def squats_def lower_char_simps toLowerCase_def[of "[]"])

section \<open>Properties of the Dashboard statistics\<close>

lemma foldl_minutes:
  "foldl (\<lambda>sum w. sum + int_or (duration_minutes w) 0) a ws
   = a + sum_list (map (\<lambda>w. int_or (duration_minutes w) 0) ws)"
  by (induction ws arbitrary: a) simp_all

lemma int_or_0: "int_or x 0 = (case x of None \<Rightarrow> 0 | Some n \<Rightarrow> n)"
  by (simp add: int_or_def split: option.splits)

lemma totalMinutes_of_sum:
  "totalMinutes_of (Some ws)
   = sum_list (map (\<lambda>w. case duration_minutes w of None \<Rightarrow> 0 | Some n \<Rightarrow> n) ws)"
proof -
  have "foldl (\<lambda>sum w. sum + int_or (duration_minutes w) 0) 0 ws
      = sum_list (map (\<lambda>w. int_or (duration_minutes w) 0) ws)"
    by (simp add: foldl_minutes)
  also have "\<dots> = sum_list (map (\<lambda>w. case duration_minutes w of None \<Rightarrow> 0 | Some n \<Rightarrow> n) ws)"
    by (simp add: int_or_0)
  finally have "int_or (Some (foldl (\<lambda>sum w. sum + int_or (duration_minutes w) 0) 0 ws)) 0
      = sum_list (map (\<lambda>w. case duration_minutes w of None \<Rightarrow> 0 | Some n \<Rightarrow> n) ws)"
    by (simp add: int_or_def)
  then show ?thesis
    by (simp add: totalMinutes_of_def)
qed

text \<open>
  C6. After a load whose workouts query returned the list \<open>W\<close>, the \<open>totalMinutes\<close> stat
  is the sum over \<open>W\<close> of \<open>duration_minutes\<close> (a \<open>null\<close> duration counts 0), and it is 0
  when \<open>W\<close> is empty.
\<close>

theorem dashboard_totalMinutes:
  "totalMinutes (stats (loadDashboardData parseDate tz now
       \<lparr>data = Some W, error = None\<rparr> \<lparr>data = G, error = None\<rparr> recentR st))
     = (\<Sum>w\<leftarrow>W. case duration_minutes w of None \<Rightarrow> 0 | Some n \<Rightarrow> n)
   \<and> totalMinutes_of (Some W) = (\<Sum>w\<leftarrow>W. case duration_minutes w of None \<Rightarrow> 0 | Some n \<Rightarrow> n)
   \<and> totalMinutes_of (Some []) = 0
   \<and> totalMinutes (stats (loadDashboardData parseDate tz now
       \<lparr>data = Some [], error = None\<rparr> \<lparr>data = G, error = None\<rparr> recentR st)) = 0"
proof -
  have st: "totalMinutes (stats (loadDashboardData parseDate tz now
       \<lparr>data = Some ws, error = None\<rparr> \<lparr>data = G, error = None\<rparr> recentR st))
     = totalMinutes_of (Some ws)" for ws
    by (simp add: loadDashboardData_def Let_def log_error_def split: option.splits)
  show ?thesis
    by (simp add: st totalMinutes_of_sum)
qed

lemma weekAgo_shift:
  "weekAgo tz now = now - 7 * day_ms + offset_shift tz now"
proof -
  let ?t = "now + offset_at_utc tz now"
  have "(?t div day_ms - 7) * day_ms + ?t mod day_ms = ?t - 7 * day_ms"
    by (simp add: algebra_simps)
  then show ?thesis
    by (simp add: weekAgo_def LocalTime_def UTC_of_def offset_shift_def Let_def)
qed

lemma weeklyFilter_member:
  "w \<in> set (weeklyFilter parseDate tz now ws) \<longleftrightarrow>
     w \<in> set ws \<and> (\<exists>t. parseDate (w_date w) = Some t \<and> weekAgo tz now \<le> t)"
  by (auto simp: weeklyFilter_def split: option.splits)

lemma weeklyWorkouts_of_insert:
  "weeklyWorkouts_of parseDate tz now (Some (ws1 @ w # ws2))
   = weeklyWorkouts_of parseDate tz now (Some (ws1 @ ws2))
     + (case parseDate (w_date w) of None \<Rightarrow> 0
        | Some t \<Rightarrow> if weekAgo tz now \<le> t then 1 else 0)"
  by (simp add: weeklyWorkouts_of_def length_or_0_def weeklyFilter_def split: option.splits)

text \<open>
  A date \<open>k\<close> days before the UTC day of \<open>now\<close>, read as midnight UTC, is at or after
  \<open>weekAgo\<close> exactly when the UTC time of day of \<open>now\<close> plus the change of offset is at
  most \<open>7 - k\<close> days.
\<close>

lemma days_before_counted:
  "weekAgo tz now \<le> (now div day_ms - k) * day_ms
   \<longleftrightarrow> now mod day_ms + offset_shift tz now \<le> (7 - k) * day_ms"
proof -
  define D m where "D = now div day_ms" and "m = now mod day_ms"
  have now: "now = D * day_ms + m"
    unfolding D_def m_def by simp
  have l: "(D - k) * day_ms = D * day_ms - k * day_ms"
    by (simp add: algebra_simps)
  have r: "(7 - k) * day_ms = 7 * day_ms - k * day_ms"
    by (simp add: algebra_simps)
  have "now - 7 * day_ms + offset_shift tz now \<le> D * day_ms - k * day_ms
      \<longleftrightarrow> m + offset_shift tz now \<le> 7 * day_ms - k * day_ms"
    using now by linarith
  then show ?thesis
    unfolding weekAgo_shift D_def [symmetric] m_def [symmetric] l r .
qed

text \<open>
  C5 (as the code has it). The weekly count is the number of workouts whose date, as a
  time value, is at or after \<open>weekAgo\<close>: \<open>now\<close> moved back seven local calendar days at the
  same local time of day, which is \<open>now\<close> minus 7 times 24 hours plus the change of the
  zone's offset. The boundary is inclusive: a workout whose date is exactly \<open>weekAgo\<close> is
  in the filtered list and adds 1 to the count. A workout dated (at midnight UTC) 7 days
  before the UTC day of \<open>now\<close> is counted exactly when the UTC time of day of \<open>now\<close> plus
  the change of offset is not positive: in a zone with a fixed offset, only when \<open>now\<close>
  is midnight UTC. A workout dated 8 days before is not counted and adds nothing, as long
  as the offset has changed by less than a day.
\<close>

theorem weekly_boundary:
  "(v \<in> set (weeklyFilter parseDate tz now ws) \<longleftrightarrow>
       v \<in> set ws \<and> (\<exists>t. parseDate (w_date v) = Some t \<and> weekAgo tz now \<le> t))
   \<and> weekAgo tz now = now - 7 * day_ms + offset_shift tz now
   \<and> (parseDate (w_date w) = Some (weekAgo tz now) \<longrightarrow>
       w \<in> set (weeklyFilter parseDate tz now (ws1 @ w # ws2))
     \<and> weeklyWorkouts_of parseDate tz now (Some (ws1 @ w # ws2))
         = weeklyWorkouts_of parseDate tz now (Some (ws1 @ ws2)) + 1)
   \<and> (parseDate (w_date w) = Some ((now div day_ms - 7) * day_ms) \<longrightarrow>
       (w \<in> set (weeklyFilter parseDate tz now (ws1 @ w # ws2))
          \<longleftrightarrow> now mod day_ms + offset_shift tz now \<le> 0)
     \<and> (offset_shift tz now = 0 \<longrightarrow>
          (w \<in> set (weeklyFilter parseDate tz now (ws1 @ w # ws2))
             \<longleftrightarrow> now mod day_ms = 0)))
   \<and> (parseDate (w_date w) = Some ((now div day_ms - 8) * day_ms)
        \<and> - day_ms < offset_shift tz now \<longrightarrow>
       w \<notin> set (weeklyFilter parseDate tz now (ws1 @ w # ws2))
     \<and> weeklyWorkouts_of parseDate tz now (Some (ws1 @ w # ws2))
         = weeklyWorkouts_of parseDate tz now (Some (ws1 @ ws2)))
   \<and> weeklyWorkouts (stats (loadDashboardData parseDate tz now
         \<lparr>data = Some W, error = None\<rparr> \<lparr>data = G, error = None\<rparr> recentR st))
       = int (length (weeklyFilter parseDate tz now W))"
proof -
  have tod: "0 \<le> now mod day_ms"
    by (simp add: day_ms_def)
  have m: "v \<in> set (weeklyFilter parseDate tz now ws) \<longleftrightarrow>
       v \<in> set ws \<and> (\<exists>t. parseDate (w_date v) = Some t \<and> weekAgo tz now \<le> t)"
    by (rule weeklyFilter_member)
  have s: "weekAgo tz now = now - 7 * day_ms + offset_shift tz now"
    by (rule weekAgo_shift)
  have a: "w \<in> set (weeklyFilter parseDate tz now (ws1 @ w # ws2))
     \<and> weeklyWorkouts_of parseDate tz now (Some (ws1 @ w # ws2))
         = weeklyWorkouts_of parseDate tz now (Some (ws1 @ ws2)) + 1"
    if "parseDate (w_date w) = Some (weekAgo tz now)"
    using that by (simp add: weeklyFilter_member weeklyWorkouts_of_insert)
  have b: "w \<in> set (weeklyFilter parseDate tz now (ws1 @ w # ws2))
          \<longleftrightarrow> now mod day_ms + offset_shift tz now \<le> 0"
    if "parseDate (w_date w) = Some ((now div day_ms - 7) * day_ms)"
    using that days_before_counted [of tz now 7] by (simp add: weeklyFilter_member)
  have b0: "w \<in> set (weeklyFilter parseDate tz now (ws1 @ w # ws2)) \<longleftrightarrow> now mod day_ms = 0"
    if "parseDate (w_date w) = Some ((now div day_ms - 7) * day_ms)"
      and "offset_shift tz now = 0"
    using b [OF that(1)] that(2) tod by auto
  have late: "\<not> weekAgo tz now \<le> (now div day_ms - 8) * day_ms"
    if "- day_ms < offset_shift tz now"
    using that tod days_before_counted [of tz now 8] by simp
  have c: "w \<notin> set (weeklyFilter parseDate tz now (ws1 @ w # ws2))
     \<and> weeklyWorkouts_of parseDate tz now (Some (ws1 @ w # ws2))
         = weeklyWorkouts_of parseDate tz now (Some (ws1 @ ws2))"
    if "parseDate (w_date w) = Some ((now div day_ms - 8) * day_ms)"
      and "- day_ms < offset_shift tz now"
    using that(1) late [OF that(2)]
    by (simp add: weeklyFilter_member weeklyWorkouts_of_insert)
  have e: "weeklyWorkouts (stats (loadDashboardData parseDate tz now
         \<lparr>data = Some W, error = None\<rparr> \<lparr>data = G, error = None\<rparr> recentR st))
       = int (length (weeklyFilter parseDate tz now W))"
    by (simp add: loadDashboardData_def Let_def log_error_def weeklyWorkouts_of_def
        length_or_0_def split: option.splits)
  from a have A: "parseDate (w_date w) = Some (weekAgo tz now) \<longrightarrow>
       w \<in> set (weeklyFilter parseDate tz now (ws1 @ w # ws2))
     \<and> weeklyWorkouts_of parseDate tz now (Some (ws1 @ w # ws2))
         = weeklyWorkouts_of parseDate tz now (Some (ws1 @ ws2)) + 1"
    by (rule impI)
  have B: "parseDate (w_date w) = Some ((now div day_ms - 7) * day_ms) \<longrightarrow>
       (w \<in> set (weeklyFilter parseDate tz now (ws1 @ w # ws2))
          \<longleftrightarrow> now mod day_ms + offset_shift tz now \<le> 0)
     \<and> (offset_shift tz now = 0 \<longrightarrow>
          (w \<in> set (weeklyFilter parseDate tz now (ws1 @ w # ws2))
             \<longleftrightarrow> now mod day_ms = 0))"
  proof (intro impI conjI)
    assume "parseDate (w_date w) = Some ((now div day_ms - 7) * day_ms)"
    then show "w \<in> set (weeklyFilter parseDate tz now (ws1 @ w # ws2))
          \<longleftrightarrow> now mod day_ms + offset_shift tz now \<le> 0"
      by (rule b)
  next
    assume "parseDate (w_date w) = Some ((now div day_ms - 7) * day_ms)"
      and "offset_shift tz now = 0"
    then show "w \<in> set (weeklyFilter parseDate tz now (ws1 @ w # ws2))
          \<longleftrightarrow> now mod day_ms = 0"
      by (rule b0)
  qed
  have C: "parseDate (w_date w) = Some ((now div day_ms - 8) * day_ms)
        \<and> - day_ms < offset_shift tz now \<longrightarrow>
       w \<notin> set (weeklyFilter parseDate tz now (ws1 @ w # ws2))
     \<and> weeklyWorkouts_of parseDate tz now (Some (ws1 @ w # ws2))
         = weeklyWorkouts_of parseDate tz now (Some (ws1 @ ws2))"
  proof (intro impI)
    assume h: "parseDate (w_date w) = Some ((now div day_ms - 8) * day_ms)
        \<and> - day_ms < offset_shift tz now"
    show "w \<notin> set (weeklyFilter parseDate tz now (ws1 @ w # ws2))
     \<and> weeklyWorkouts_of parseDate tz now (Some (ws1 @ w # ws2))
         = weeklyWorkouts_of parseDate tz now (Some (ws1 @ ws2))"
      by (rule c [OF conjunct1 [OF h] conjunct2 [OF h]])
  qed
  show ?thesis
    by (rule conjI [OF m conjI [OF s conjI [OF A conjI [OF B conjI [OF C e]]]]])
qed

text \<open>Sample values: \<open>weekAgo\<close> in UTC at a midnight and at a noon, and in New York.\<close>

lemma weekAgo_samples:
  "weekAgo utc_zone 1757894400000 = 1757289600000"
  "weekAgo utc_zone 1757937600000 = 1757332800000"
  "weekAgo new_york_zone 1741824000000 = 1741222800000"
  "offset_shift utc_zone 1757894400000 = 0"
  by (simp_all add: weekAgo_def LocalTime_def UTC_of_def offset_shift_def utc_zone_def
      new_york_zone_def day_ms_def Let_def)

lemma no_workouts_counted:
  "weeklyWorkouts_of parseDate tz now (Some []) = 0"
  by (simp add: weeklyWorkouts_of_def length_or_0_def weeklyFilter_def)

theorem weekly_boundary_witness:
  "sample_parse (w_date (a_workout ''2025-09-08'' (Some 30)))
     = Some (weekAgo utc_zone 1757894400000)
   \<and> sample_parse (w_date (a_workout ''2025-09-08'' (Some 30)))
     = Some ((1757894400000 div day_ms - 7) * day_ms)
   \<and> weeklyWorkouts_of sample_parse utc_zone 1757894400000
       (Some [a_workout ''2025-09-08'' (Some 30)]) = 1
   \<and> sample_parse (w_date (a_workout ''2025-09-07'' (Some 45)))
     = Some ((1757894400000 div day_ms - 8) * day_ms)
   \<and> - day_ms < offset_shift utc_zone 1757894400000
   \<and> weeklyWorkouts_of sample_parse utc_zone 1757894400000
       (Some [a_workout ''2025-09-07'' (Some 45)]) = 0"
proof -
  let ?now = "1757894400000 :: int"
  let ?w7 = "a_workout ''2025-09-08'' (Some 30)"
  let ?w8 = "a_workout ''2025-09-07'' (Some 45)"
  have h7: "sample_parse (w_date ?w7) = Some (weekAgo utc_zone ?now)"
    by (simp add: weekAgo_samples sample_parse_def a_workout_def)
  have d7: "sample_parse (w_date ?w7) = Some ((?now div day_ms - 7) * day_ms)"
    by (simp add: sample_parse_def a_workout_def day_ms_def)
  have h8: "sample_parse (w_date ?w8) = Some ((?now div day_ms - 8) * day_ms)"
    by (simp add: sample_parse_def a_workout_def day_ms_def)
  have sh: "- day_ms < offset_shift utc_zone ?now"
    by (simp add: weekAgo_samples day_ms_def)
  from weekly_boundary [of _ sample_parse utc_zone ?now _ ?w7 "[]" "[]"] h7
  have "weeklyWorkouts_of sample_parse utc_zone ?now (Some ([] @ ?w7 # []))
      = weeklyWorkouts_of sample_parse utc_zone ?now (Some ([] @ [])) + 1"
    by blast
  then have c7: "weeklyWorkouts_of sample_parse utc_zone ?now (Some [?w7]) = 1"
    by (simp add: no_workouts_counted)
  from weekly_boundary [of _ sample_parse utc_zone ?now _ ?w8 "[]" "[]"] h8 sh
  have "weeklyWorkouts_of sample_parse utc_zone ?now (Some ([] @ ?w8 # []))
      = weeklyWorkouts_of sample_parse utc_zone ?now (Some ([] @ []))"
    by blast
  then have c8: "weeklyWorkouts_of sample_parse utc_zone ?now (Some [?w8]) = 0"
    by (simp add: no_workouts_counted)
  from h7 d7 c7 h8 sh c8 show ?thesis by blast
qed

text \<open>
  C5 as stated fails. In UTC at noon of 2025-09-15 a workout dated 2025-09-08, seven
  calendar days before, is not counted: its date is midnight UTC, twelve hours before
  \<open>weekAgo\<close>. In New York at 2025-03-13T00:00Z a workout dated 2025-03-06, whose time
  value is exactly \<open>now\<close> minus 7 times 24 hours, is not counted either: the clocks
  changed in between and \<open>weekAgo\<close> is one hour later.
\<close>

theorem weekly_boundary_counterexample:
  "sample_parse (w_date (a_workout ''2025-09-08'' (Some 30)))
     = Some ((1757937600000 div day_ms - 7) * day_ms)
   \<and> weeklyWorkouts_of sample_parse utc_zone 1757937600000
       (Some [a_workout ''2025-09-08'' (Some 30)]) = 0
   \<and> sample_parse (w_date (a_workout ''2025-03-06'' (Some 30)))
     = Some (1741824000000 - 7 * day_ms)
   \<and> weeklyWorkouts_of sample_parse new_york_zone 1741824000000
       (Some [a_workout ''2025-03-06'' (Some 30)]) = 0"
  by (simp add: weeklyWorkouts_of_def length_or_0_def weeklyFilter_def weekAgo_samples
      sample_parse_def a_workout_def day_ms_def)

text \<open>
  C9 (as the code has it). When the workouts query or the goals query fails, the error is
  logged, the stats and the recent workouts keep their values and \<open>loading\<close> is cleared.
  When those two succeed and the recent-workouts query fails, the error is logged and the
  recent workouts keep their value, but the stats have already been set from the workouts
  and goals just fetched.
\<close>

theorem dashboard_failed_fetch:
  "(error workoutsR \<noteq> None \<or> error goalsR \<noteq> None \<longrightarrow>
       stats (loadDashboardData parseDate tz now workoutsR goalsR recentR st) = stats st
     \<and> recentWorkouts (loadDashboardData parseDate tz now workoutsR goalsR recentR st)
         = recentWorkouts st
     \<and> length (console (loadDashboardData parseDate tz now workoutsR goalsR recentR st))
         = Suc (length (console st))
     \<and> \<not> dash_loading (loadDashboardData parseDate tz now workoutsR goalsR recentR st))
   \<and> (error workoutsR = None \<and> error goalsR = None \<and> error recentR \<noteq> None \<longrightarrow>
       stats (loadDashboardData parseDate tz now workoutsR goalsR recentR st)
         = \<lparr>totalWorkouts = length_or_0 (data workoutsR),
            totalMinutes = totalMinutes_of (data workoutsR),
            activeGoals = length_or_0 (data goalsR),
            weeklyWorkouts = weeklyWorkouts_of parseDate tz now (data workoutsR)\<rparr>
     \<and> recentWorkouts (loadDashboardData parseDate tz now workoutsR goalsR recentR st)
         = recentWorkouts st
     \<and> length (console (loadDashboardData parseDate tz now workoutsR goalsR recentR st))
         = Suc (length (console st))
     \<and> \<not> dash_loading (loadDashboardData parseDate tz now workoutsR goalsR recentR st))"
  by (auto simp: loadDashboardData_def Let_def log_error_def split: option.splits)

text \<open>A load whose third query fails, evaluated.\<close>

lemma failed_third_fetch:
  "loadDashboardData sample_parse utc_zone 1757894400000
     (ok_response [a_workout ''2025-09-08'' (Some 30)]) (ok_response [])
     (failed_response ''fetch failed'') initialDashboard
   = \<lparr>stats = \<lparr>totalWorkouts = 1, totalMinutes = 30, activeGoals = 0, weeklyWorkouts = 1\<rparr>,
      recentWorkouts = [], dash_loading = False,
      console = [''Error loading dashboard data: fetch failed'']\<rparr>"
  by (simp add: loadDashboardData_def Let_def log_error_def ok_response_def
      failed_response_def initialDashboard_def length_or_0_def totalMinutes_of_def int_or_def
      weeklyWorkouts_of_def weeklyFilter_def weekAgo_samples sample_parse_def
      a_workout_def)

text \<open>
  C9 as stated fails for the third query: starting from the initial state, with one
  workout of 30 minutes fetched and the recent-workouts query failing, the stats are no
  longer the zero-initialised ones.
\<close>

theorem dashboard_failed_fetch_counterexample:
  "error (failed_response ''fetch failed'' :: recent_row list response) \<noteq> None
   \<and> stats (loadDashboardData sample_parse utc_zone 1757894400000
        (ok_response [a_workout ''2025-09-08'' (Some 30)]) (ok_response [])
        (failed_response ''fetch failed'') initialDashboard)
      = \<lparr>totalWorkouts = 1, totalMinutes = 30, activeGoals = 0, weeklyWorkouts = 1\<rparr>
   \<and> stats (loadDashboardData sample_parse utc_zone 1757894400000
        (ok_response [a_workout ''2025-09-08'' (Some 30)]) (ok_response [])
        (failed_response ''fetch failed'') initialDashboard)
      \<noteq> stats initialDashboard"
  by (simp add: failed_third_fetch) (simp add: failed_response_def initialDashboard_def)

theorem dashboard_failed_fetch_witness:
  "error (failed_response ''denied'' :: workout_row list response) \<noteq> None
   \<and> stats (loadDashboardData sample_parse utc_zone 1757894400000 (failed_response ''denied'')
        (ok_response []) (ok_response []) initialDashboard) = stats initialDashboard
   \<and> error (ok_response [a_workout ''2025-09-08'' (Some 30)]) = None
   \<and> error (ok_response [] :: Goal list response) = None
   \<and> error (failed_response ''fetch failed'' :: recent_row list response) \<noteq> None
   \<and> recentWorkouts (loadDashboardData sample_parse utc_zone 1757894400000
        (ok_response [a_workout ''2025-09-08'' (Some 30)]) (ok_response [])
        (failed_response ''fetch failed'') initialDashboard) = recentWorkouts initialDashboard"
proof -
  have e1: "error (failed_response ''denied'' :: workout_row list response) \<noteq> None"
    by (simp add: failed_response_def)
  have e2: "error (ok_response [a_workout ''2025-09-08'' (Some 30)]) = None"
    by (simp add: ok_response_def)
  have e3: "error (ok_response [] :: Goal list response) = None"
    by (simp add: ok_response_def)
  have e4: "error (failed_response ''fetch failed'' :: recent_row list response) \<noteq> None"
    by (simp add: failed_response_def)
  from e1 dashboard_failed_fetch [of "failed_response ''denied''" "ok_response []"
      sample_parse utc_zone 1757894400000 "ok_response []" initialDashboard]
  have a: "stats (loadDashboardData sample_parse utc_zone 1757894400000 (failed_response ''denied'')
        (ok_response []) (ok_response []) initialDashboard) = stats initialDashboard"
    by blast
  from e2 e3 e4 dashboard_failed_fetch [of "ok_response [a_workout ''2025-09-08'' (Some 30)]"
      "ok_response []" sample_parse utc_zone 1757894400000 "failed_response ''fetch failed''"
      initialDashboard]
  have b: "recentWorkouts (loadDashboardData sample_parse utc_zone 1757894400000
        (ok_response [a_workout ''2025-09-08'' (Some 30)]) (ok_response [])
        (failed_response ''fetch failed'') initialDashboard) = recentWorkouts initialDashboard"
    by blast
  from e1 a e2 e3 e4 b show ?thesis by blast
qed


section \<open>Properties of saving an edited workout\<close>

lemma handleSave_update_prefix:
  "prefix (issued (handleSave fails fresh user_id (Some wid) st db))
     [UpdateWorkout wid (workout_fields None st), DeleteWorkoutExercises wid,
      InsertWorkoutExercises (exerciseInserts wid (workoutExercises st))]"
  by (simp add: handleSave_def save_workout_def send_def save_failed_def save_done_def)

lemma handleSave_insert_fails:
  assumes "trim (name st) \<noteq> []" and "workoutExercises st \<noteq> []"
    and "\<not> fails (UpdateWorkout wid (workout_fields None st))"
    and "\<not> fails (DeleteWorkoutExercises wid)"
    and "fails (InsertWorkoutExercises (exerciseInserts wid (workoutExercises st)))"
  shows "handleSave fails fresh user_id (Some wid) st db =
     save_failed st
       (apply_request fresh (DeleteWorkoutExercises wid)
          (apply_request fresh (UpdateWorkout wid (workout_fields None st)) db),
        [UpdateWorkout wid (workout_fields None st), DeleteWorkoutExercises wid,
         InsertWorkoutExercises (exerciseInserts wid (workoutExercises st))])"
  using assms by (simp add: handleSave_def save_workout_def send_def)

lemma rows_of_deleted:
  "rows_of wid (apply_request fresh (DeleteWorkoutExercises wid) db) = []"
  by (simp add: rows_of_def filter_empty_conv)

text \<open>
  C4. Saving an edited workout issues, in this order and nothing else, the update of the
  workout, the delete of its exercise rows and the insert of the rows of the form; an
  error stops the sequence where it occurs. When the update and the delete succeed and
  the insert fails, the insert is the last request issued: the workout is left with no
  exercise rows in the store, the alert \<open>Error saving workout. Please try again.\<close> is
  shown and \<open>onSave\<close> is not called.
\<close>

theorem handleSave_update_not_atomic:
  "prefix (issued (handleSave fails fresh user_id (Some wid) st db))
     [UpdateWorkout wid (workout_fields None st), DeleteWorkoutExercises wid,
      InsertWorkoutExercises (exerciseInserts wid (workoutExercises st))]
   \<and> (trim (name st) \<noteq> [] \<and> workoutExercises st \<noteq> []
        \<and> \<not> fails (UpdateWorkout wid (workout_fields None st))
        \<and> \<not> fails (DeleteWorkoutExercises wid)
        \<and> fails (InsertWorkoutExercises (exerciseInserts wid (workoutExercises st)))
      \<longrightarrow>
        issued (handleSave fails fresh user_id (Some wid) st db)
          = [UpdateWorkout wid (workout_fields None st), DeleteWorkoutExercises wid,
             InsertWorkoutExercises (exerciseInserts wid (workoutExercises st))]
      \<and> rows_of wid (backend_after (handleSave fails fresh user_id (Some wid) st db)) = []
      \<and> alerts (handleSave fails fresh user_id (Some wid) st db)
          = [''Error saving workout. Please try again.'']
      \<and> \<not> onSave_called (handleSave fails fresh user_id (Some wid) st db))"
proof -
  have order: "prefix (issued (handleSave fails fresh user_id (Some wid) st db))
     [UpdateWorkout wid (workout_fields None st), DeleteWorkoutExercises wid,
      InsertWorkoutExercises (exerciseInserts wid (workoutExercises st))]"
    by (rule handleSave_update_prefix)
  have lost: "issued (handleSave fails fresh user_id (Some wid) st db)
          = [UpdateWorkout wid (workout_fields None st), DeleteWorkoutExercises wid,
             InsertWorkoutExercises (exerciseInserts wid (workoutExercises st))]
      \<and> rows_of wid (backend_after (handleSave fails fresh user_id (Some wid) st db)) = []
      \<and> alerts (handleSave fails fresh user_id (Some wid) st db)
          = [''Error saving workout. Please try again.'']
      \<and> \<not> onSave_called (handleSave fails fresh user_id (Some wid) st db)"
    if "trim (name st) \<noteq> []" and "workoutExercises st \<noteq> []"
      and "\<not> fails (UpdateWorkout wid (workout_fields None st))"
      and "\<not> fails (DeleteWorkoutExercises wid)"
      and "fails (InsertWorkoutExercises (exerciseInserts wid (workoutExercises st)))"
    unfolding handleSave_insert_fails [OF that]
    by (simp add: save_failed_def rows_of_deleted del: apply_request.simps)
  from order lost show ?thesis by blast
qed

lemma trim_Morning: "trim ''Morning'' = ''Morning''"
  by (simp add: trim_def is_space_def)

lemma edit_form_fields:
  "name edit_form = ''Morning''" "workoutExercises edit_form \<noteq> []"
  by (simp_all add: edit_form_def two_sets_def emptyForm_def)

theorem handleSave_update_not_atomic_witness:
  "rows_of ''w1'' a_backend = [a_row ''w1'' ''e1'', a_row ''w1'' ''e4'']
   \<and> rows_of ''w1'' (backend_after
        (handleSave inserts_fail ''w3'' ''u1'' (Some ''w1'') edit_form a_backend)) = []
   \<and> alerts (handleSave inserts_fail ''w3'' ''u1'' (Some ''w1'') edit_form a_backend)
       = [''Error saving workout. Please try again.'']
   \<and> length (issued (handleSave inserts_fail ''w3'' ''u1'' (Some ''w1'') edit_form a_backend)) = 3"
proof -
  have before: "rows_of ''w1'' a_backend = [a_row ''w1'' ''e1'', a_row ''w1'' ''e4'']"
    by (simp add: rows_of_def a_backend_def a_row_def)
  have h: "trim (name edit_form) \<noteq> [] \<and> workoutExercises edit_form \<noteq> []
        \<and> \<not> inserts_fail (UpdateWorkout ''w1'' (workout_fields None edit_form))
        \<and> \<not> inserts_fail (DeleteWorkoutExercises ''w1'')
        \<and> inserts_fail
            (InsertWorkoutExercises (exerciseInserts ''w1'' (workoutExercises edit_form)))"
    by (simp add: edit_form_fields trim_Morning inserts_fail_def)
  from handleSave_update_not_atomic
    [of inserts_fail "''w3''" "''u1''" "''w1''" edit_form a_backend] h
  have after: "issued (handleSave inserts_fail ''w3'' ''u1'' (Some ''w1'') edit_form a_backend)
          = [UpdateWorkout ''w1'' (workout_fields None edit_form), DeleteWorkoutExercises ''w1'',
             InsertWorkoutExercises (exerciseInserts ''w1'' (workoutExercises edit_form))]
      \<and> rows_of ''w1'' (backend_after
           (handleSave inserts_fail ''w3'' ''u1'' (Some ''w1'') edit_form a_backend)) = []
      \<and> alerts (handleSave inserts_fail ''w3'' ''u1'' (Some ''w1'') edit_form a_backend)
          = [''Error saving workout. Please try again.'']"
    by blast
  then have "length (issued
      (handleSave inserts_fail ''w3'' ''u1'' (Some ''w1'') edit_form a_backend)) = 3"
    by simp
  with before after show ?thesis by blast
qed

text \<open>The rows of the other workout are untouched by that save.\<close>

lemma other_workout_kept:
  "rows_of ''w2'' (backend_after
     (handleSave inserts_fail ''w3'' ''u1'' (Some ''w1'') edit_form a_backend))
   = [a_row ''w2'' ''e2'']"
  by (simp add: handleSave_def save_workout_def send_def save_failed_def edit_form_fields
      trim_Morning inserts_fail_def rows_of_def a_backend_def a_row_def)

end
